theory Spec2Isabelle
  imports Complex_Main
begin

section \<open>Credit-card payment simulators\<close>

text \<open>
  The two simulators of \<^verbatim>\<open>credit_card_sim_app.py\<close>. Balances, amounts and the
  interest rate are Python numbers; they are modelled as \<^typ>\<open>real\<close>, so the rounding
  of binary floating point is not part of the model. The counts \<open>months\<close> and
  \<open>days_per_month\<close> and the days of the month are Python integers, modelled as
  \<^typ>\<open>int\<close>. The tuple \<open>payment_days\<close> is a list, so order and duplicates are kept.
\<close>

subsection \<open>Library functions used by the source\<close>

text \<open>Python's \<^verbatim>\<open>range(a, b)\<close>: the integers from \<open>a\<close> up to \<open>b - 1\<close>, empty when
  \<open>b \<le> a\<close>.\<close>

definition py_range :: "int \<Rightarrow> int \<Rightarrow> int list" where
  "py_range a b = [a..b - 1]"

text \<open>\<^verbatim>\<open>np.mean\<close>: the sum of the entries divided by their number. On an empty
  sequence numpy returns NaN (with a warning, no exception); NaN is \<open>None\<close> here.\<close>

definition np_mean :: "real list \<Rightarrow> real option" where
  "np_mean xs = (if xs = [] then None else Some (sum_list xs / real (length xs)))"

subsection \<open>The loop state\<close>

text \<open>The two local variables that the loops update.\<close>

record sim_state =
  current_balance :: real
  daily_balances :: "real list"

subsection \<open>\<^verbatim>\<open>simulate_payments_staggered\<close>\<close>

text \<open>The body of the inner loop (source lines 27 to 33): on a payment day the amount is
  subtracted and a negative result is cut off at zero; then the balance is appended.\<close>

definition staggered_day :: "int list \<Rightarrow> real \<Rightarrow> int \<Rightarrow> sim_state \<Rightarrow> sim_state" where
  "staggered_day payment_days payment_amount day s =
     (let s1 = (if day \<in> set payment_days
                then (let s2 = s\<lparr>current_balance := current_balance s - payment_amount\<rparr>
                      in if current_balance s2 < 0 then s2\<lparr>current_balance := 0\<rparr> else s2)
                else s)
      in s1\<lparr>daily_balances := daily_balances s1 @ [current_balance s1]\<rparr>)"

text \<open>The whole function: both loops, then the mean and the interest. The result is the
  triple \<open>(daily_balances, annual_interest_earned, avg_daily_balance)\<close>, in the order of
  the \<^verbatim>\<open>return\<close> statement.\<close>

definition simulate_payments_staggered ::
  "real \<Rightarrow> real \<Rightarrow> int \<Rightarrow> int \<Rightarrow> int list \<Rightarrow> real \<Rightarrow> real list \<times> real option \<times> real option" where
  "simulate_payments_staggered initial_balance annual_interest_rate months days_per_month
       payment_days payment_amount =
     (let s0 = \<lparr>current_balance = initial_balance, daily_balances = []\<rparr>;
          s = fold (\<lambda>month. fold (staggered_day payment_days payment_amount)
                                 (py_range 1 (days_per_month + 1)))
                   (py_range 0 months) s0;
          avg_daily_balance = np_mean (daily_balances s);
          annual_interest_earned =
            map_option (\<lambda>m. m * annual_interest_rate) avg_daily_balance
      in (daily_balances s, annual_interest_earned, avg_daily_balance))"

subsection \<open>\<^verbatim>\<open>simulate_payments_lump_sum\<close>\<close>

text \<open>The body of the inner loop (source lines 63 to 69).\<close>

definition lump_sum_day :: "int \<Rightarrow> real \<Rightarrow> int \<Rightarrow> sim_state \<Rightarrow> sim_state" where
  "lump_sum_day payment_day payment_amount day s =
     (let s1 = (if day = payment_day
                then (let s2 = s\<lparr>current_balance := current_balance s - payment_amount\<rparr>
                      in if current_balance s2 < 0 then s2\<lparr>current_balance := 0\<rparr> else s2)
                else s)
      in s1\<lparr>daily_balances := daily_balances s1 @ [current_balance s1]\<rparr>)"

definition simulate_payments_lump_sum ::
  "real \<Rightarrow> real \<Rightarrow> int \<Rightarrow> int \<Rightarrow> int \<Rightarrow> real \<Rightarrow> real list \<times> real option \<times> real option" where
  "simulate_payments_lump_sum initial_balance annual_interest_rate months days_per_month
       payment_day payment_amount =
     (let s0 = \<lparr>current_balance = initial_balance, daily_balances = []\<rparr>;
          s = fold (\<lambda>month. fold (lump_sum_day payment_day payment_amount)
                                 (py_range 1 (days_per_month + 1)))
                   (py_range 0 months) s0;
          avg_daily_balance = np_mean (daily_balances s);
          annual_interest_earned =
            map_option (\<lambda>m. m * annual_interest_rate) avg_daily_balance
      in (daily_balances s, annual_interest_earned, avg_daily_balance))"

subsection \<open>Auxiliary functions for the proofs\<close>

text \<open>What one pass through the loop body does to the balance: \<open>due\<close> says whether the
  day is a payment day.\<close>

definition debit :: "bool \<Rightarrow> real \<Rightarrow> real \<Rightarrow> real" where
  "debit due payment_amount b =
     (if due then (if b - payment_amount < 0 then 0 else b - payment_amount) else b)"

text \<open>The balances recorded over a list of days, starting from balance \<open>b\<close>.\<close>

fun run_days :: "(int \<Rightarrow> bool) \<Rightarrow> real \<Rightarrow> real \<Rightarrow> int list \<Rightarrow> real list" where
  "run_days due a b [] = []"
| "run_days due a b (d # ds) = debit (due d) a b # run_days due a (debit (due d) a b) ds"

text \<open>The days of the month that the two nested loops visit, in order.\<close>

definition all_days :: "int \<Rightarrow> int \<Rightarrow> int list" where
  "all_days months days_per_month =
     concat (map (\<lambda>month. py_range 1 (days_per_month + 1)) (py_range 0 months))"

subsection \<open>Reading the series by position\<close>

text \<open>Entry \<open>i\<close> of the series (counted from 0) is recorded on this day of the month:
  the inner loop runs through the days \<open>1, \<dots>, days_per_month\<close> once per month.\<close>

definition day_of_month :: "int \<Rightarrow> nat \<Rightarrow> int" where
  "day_of_month days_per_month i = int (i mod nat days_per_month) + 1"

text \<open>The value of \<open>current_balance\<close> when the loop body starts for entry \<open>i\<close>: the
  initial balance on the first day, the entry recorded the day before otherwise.\<close>

definition balance_before :: "real \<Rightarrow> real list \<Rightarrow> nat \<Rightarrow> real" where
  "balance_before initial_balance series i =
     (if i = 0 then initial_balance else series ! (i - 1))"


section \<open>The loops as a run over a list of days\<close>

lemma staggered_day_debit:
  "staggered_day pd a d s =
     \<lparr>current_balance = debit (d \<in> set pd) a (current_balance s),
      daily_balances = daily_balances s @ [debit (d \<in> set pd) a (current_balance s)]\<rparr>"
  by (simp add: staggered_day_def debit_def Let_def)

lemma lump_sum_day_debit:
  "lump_sum_day p a d s =
     \<lparr>current_balance = debit (d = p) a (current_balance s),
      daily_balances = daily_balances s @ [debit (d = p) a (current_balance s)]\<rparr>"
  by (simp add: lump_sum_day_def debit_def Let_def)

lemma fold_day_run_days:
  assumes step: "\<And>d s. f d s =
     \<lparr>current_balance = debit (due d) a (current_balance s),
      daily_balances = daily_balances s @ [debit (due d) a (current_balance s)]\<rparr>"
  shows "daily_balances (fold f ds s) = daily_balances s @ run_days due a (current_balance s) ds"
proof (induction ds arbitrary: s)
  case Nil
  show ?case by simp
next
  case (Cons d ds)
  have "daily_balances (fold f (d # ds) s) = daily_balances (fold f ds (f d s))"
    by simp
  also have "\<dots> = daily_balances (f d s) @ run_days due a (current_balance (f d s)) ds"
    by (rule Cons.IH)
  also have "\<dots> = daily_balances s @ run_days due a (current_balance s) (d # ds)"
    by (simp add: step)
  finally show ?case .
qed

lemma fold_months_concat:
  "fold (\<lambda>month. fold f ds) ms s = fold f (concat (map (\<lambda>month. ds) ms)) s"
  by (induction ms arbitrary: s) simp_all

lemma loops_run_days:
  assumes step: "\<And>d s. f d s =
     \<lparr>current_balance = debit (due d) a (current_balance s),
      daily_balances = daily_balances s @ [debit (due d) a (current_balance s)]\<rparr>"
  shows "daily_balances (fold (\<lambda>month. fold f (py_range 1 (days_per_month + 1)))
            (py_range 0 months) \<lparr>current_balance = b, daily_balances = []\<rparr>)
         = run_days due a b (all_days months days_per_month)"
  by (simp add: fold_months_concat fold_day_run_days [where f = f, OF step] all_days_def)

lemma staggered_series:
  "fst (simulate_payments_staggered ib r m dpm pd a) =
     run_days (\<lambda>d. d \<in> set pd) a ib (all_days m dpm)"
  by (simp add: simulate_payments_staggered_def Let_def
      loops_run_days [where f = "staggered_day pd a", OF staggered_day_debit])

lemma lump_sum_series:
  "fst (simulate_payments_lump_sum ib r m dpm p a) =
     run_days (\<lambda>d. d = p) a ib (all_days m dpm)"
  by (simp add: simulate_payments_lump_sum_def Let_def
      loops_run_days [where f = "lump_sum_day p a", OF lump_sum_day_debit])

lemma length_run_days: "length (run_days due a b ds) = length ds"
  by (induction ds arbitrary: b) simp_all

lemma length_py_range: "length (py_range a b) = nat (b - a)"
  by (simp add: py_range_def)

lemma length_all_days: "length (all_days m dpm) = nat m * nat dpm"
  by (simp add: all_days_def length_concat comp_def length_py_range sum_list_triv)

lemma int_length_all_days:
  "0 \<le> m \<Longrightarrow> 0 \<le> dpm \<Longrightarrow> int (length (all_days m dpm)) = m * dpm"
  by (simp add: length_all_days)

lemma set_all_days: "set (all_days m dpm) \<subseteq> {1..dpm}"
  by (auto simp: all_days_def py_range_def)

lemma debit_nonneg: "0 \<le> b \<Longrightarrow> 0 \<le> debit due a b"
  by (simp add: debit_def)

lemma run_days_nonneg: "0 \<le> b \<Longrightarrow> \<forall>x \<in> set (run_days due a b ds). 0 \<le> x"
proof (induction ds arbitrary: b)
  case Nil
  show ?case by simp
next
  case (Cons d ds)
  from Cons.prems have nn: "0 \<le> debit (due d) a b" by (rule debit_nonneg)
  from Cons.IH [OF nn] nn show ?case by simp
qed

lemma run_days_never_due:
  "\<forall>d \<in> set ds. \<not> due d \<Longrightarrow> run_days due a b ds = replicate (length ds) b"
  by (induction ds arbitrary: b) (simp_all add: debit_def)

lemma debit_zero: "0 \<le> a \<Longrightarrow> debit due a 0 = 0"
  by (simp add: debit_def)

lemma run_days_zero:
  "0 \<le> a \<Longrightarrow> run_days due a 0 ds = replicate (length ds) 0"
  by (induction ds) (simp_all add: debit_zero)

lemma run_days_nth:
  "i < length ds \<Longrightarrow>
     run_days due a b ds ! i =
       debit (due (ds ! i)) a (if i = 0 then b else run_days due a b ds ! (i - 1))"
proof (induction ds arbitrary: b i)
  case Nil
  then show ?case by simp
next
  case (Cons d ds)
  show ?case
  proof (cases i)
    case 0
    then show ?thesis by simp
  next
    case (Suc k)
    with Cons.prems have k: "k < length ds" by simp
    show ?thesis using Cons.IH [OF k, of "debit (due d) a b"] Suc
      by (cases k) simp_all
  qed
qed

lemma run_days_stays_zero:
  "0 \<le> a \<Longrightarrow> i \<le> j \<Longrightarrow> j < length ds \<Longrightarrow> run_days due a b ds ! i = 0 \<Longrightarrow>
     run_days due a b ds ! j = 0"
proof (induction ds arbitrary: b i j)
  case Nil
  then show ?case by simp
next
  case (Cons d ds)
  show ?case
  proof (cases i)
    case 0
    with Cons.prems have z: "debit (due d) a b = 0" by simp
    show ?thesis
    proof (cases j)
      case 0
      then show ?thesis using z by simp
    next
      case (Suc k)
      with Cons.prems have "k < length ds" by simp
      then show ?thesis using Suc z Cons.prems(1) by (simp add: run_days_zero)
    qed
  next
    case (Suc k)
    with Cons.prems obtain l where j: "j = Suc l" and kl: "k \<le> l" and l: "l < length ds"
      by (cases j) auto
    from Cons.prems Suc have "run_days due a (debit (due d) a b) ds ! k = 0" by simp
    from Cons.IH [OF Cons.prems(1) kl l this] show ?thesis using j by simp
  qed
qed

lemma concat_replicate_nth:
  "i < n * length xs \<Longrightarrow> concat (replicate n xs) ! i = xs ! (i mod length xs)"
proof (induction n arbitrary: i)
  case 0
  then show ?case by simp
next
  case (Suc n)
  show ?case
  proof (cases "i < length xs")
    case True
    then show ?thesis by (simp add: nth_append)
  next
    case False
    with Suc.prems have "i - length xs < n * length xs" by simp
    from Suc.IH [OF this] False show ?thesis
      by (simp add: nth_append le_mod_geq)
  qed
qed

lemma all_days_nth:
  assumes "i < nat m * nat dpm"
  shows "all_days m dpm ! i = int (i mod nat dpm) + 1"
proof -
  have pos: "0 < nat dpm" using assms by (cases "nat dpm") simp_all
  have len: "length (py_range 1 (dpm + 1)) = nat dpm" by (simp add: length_py_range)
  have "all_days m dpm = concat (replicate (nat m) (py_range 1 (dpm + 1)))"
    by (simp add: all_days_def map_replicate_const length_py_range)
  then have "all_days m dpm ! i = py_range 1 (dpm + 1) ! (i mod nat dpm)"
    using concat_replicate_nth [of i "nat m" "py_range 1 (dpm + 1)"] assms len by simp
  also have "\<dots> = int (i mod nat dpm) + 1"
  proof -
    have "i mod nat dpm < nat dpm" using pos by simp
    then have "1 + int (i mod nat dpm) \<le> dpm" by linarith
    then have "[1..dpm] ! (i mod nat dpm) = 1 + int (i mod nat dpm)" by (rule nth_upto)
    then show ?thesis by (simp add: py_range_def)
  qed
  finally show ?thesis .
qed

lemma debit_exceeds: "b < a \<Longrightarrow> debit True a b = 0"
  by (simp add: debit_def)

lemma staggered_result:
  "simulate_payments_staggered ib r m dpm pd a =
     (run_days (\<lambda>d. d \<in> set pd) a ib (all_days m dpm),
      map_option (\<lambda>x. x * r) (np_mean (run_days (\<lambda>d. d \<in> set pd) a ib (all_days m dpm))),
      np_mean (run_days (\<lambda>d. d \<in> set pd) a ib (all_days m dpm)))"
  by (simp add: simulate_payments_staggered_def Let_def
      loops_run_days [where f = "staggered_day pd a", OF staggered_day_debit])

lemma lump_sum_result:
  "simulate_payments_lump_sum ib r m dpm p a =
     (run_days (\<lambda>d. d = p) a ib (all_days m dpm),
      map_option (\<lambda>x. x * r) (np_mean (run_days (\<lambda>d. d = p) a ib (all_days m dpm))),
      np_mean (run_days (\<lambda>d. d = p) a ib (all_days m dpm)))"
  by (simp add: simulate_payments_lump_sum_def Let_def
      loops_run_days [where f = "lump_sum_day p a", OF lump_sum_day_debit])

text \<open>Rules that evaluate a run on concrete parameters.\<close>

lemmas eval_days = all_days_def py_range_def upto_rec1 debit_def

section \<open>Properties of the simulators\<close>

text \<open>
  Claim C1. For non-negative \<open>months\<close> and \<open>days_per_month\<close> and any schedule, the
  balance series returned by each of the two simulators has exactly
  \<open>months * days_per_month\<close> entries.
\<close>

theorem series_length:
  assumes "0 \<le> months" and "0 \<le> days_per_month"
  shows "int (length (fst (simulate_payments_staggered ib r months days_per_month pd a)))
           = months * days_per_month
       \<and> int (length (fst (simulate_payments_lump_sum ib r months days_per_month p a)))
           = months * days_per_month"
  using assms
  by (simp add: staggered_series lump_sum_series length_run_days int_length_all_days)

text \<open>The default parameters of the source: twelve months of thirty days give 360 entries.\<close>

theorem series_length_witness:
  "(0::int) \<le> 12 \<and> (0::int) \<le> 30
   \<and> int (length (fst (simulate_payments_staggered 30000 0.04 12 30 [7, 14, 21, 28] 1000))) = 360
   \<and> int (length (fst (simulate_payments_lump_sum 30000 0.04 12 30 28 1000))) = 360"
proof -
  have m: "(0::int) \<le> 12" and d: "(0::int) \<le> 30" by simp_all
  show ?thesis
    using series_length [OF m d, where ib = 30000 and r = "0.04"
        and pd = "[7, 14, 21, 28]" and a = 1000 and p = 28]
    by simp
qed

text \<open>
  Claim C2. With a non-negative initial balance every entry of the series of either
  simulator is non-negative. The loop body cuts a debit off at zero (the new balance is
  the maximum of zero and the difference) before it records the balance, and on a day
  without payment it records the balance unchanged.
\<close>

theorem balance_never_negative:
  assumes "0 \<le> ib"
  shows "(\<forall>x \<in> set (fst (simulate_payments_staggered ib r m dpm pd a)). 0 \<le> x)
       \<and> (\<forall>x \<in> set (fst (simulate_payments_lump_sum ib r m dpm p a)). 0 \<le> x)
       \<and> current_balance (staggered_day pd a d s) =
           (if d \<in> set pd then max 0 (current_balance s - a) else current_balance s)
       \<and> daily_balances (staggered_day pd a d s) =
           daily_balances s @ [current_balance (staggered_day pd a d s)]
       \<and> current_balance (lump_sum_day p a d s) =
           (if d = p then max 0 (current_balance s - a) else current_balance s)
       \<and> daily_balances (lump_sum_day p a d s) =
           daily_balances s @ [current_balance (lump_sum_day p a d s)]"
proof -
  have "\<forall>x \<in> set (fst (simulate_payments_staggered ib r m dpm pd a)). 0 \<le> x"
    unfolding staggered_series using assms by (rule run_days_nonneg)
  moreover have "\<forall>x \<in> set (fst (simulate_payments_lump_sum ib r m dpm p a)). 0 \<le> x"
    unfolding lump_sum_series using assms by (rule run_days_nonneg)
  moreover have "current_balance (staggered_day pd a d s) =
      (if d \<in> set pd then max 0 (current_balance s - a) else current_balance s)"
    by (simp add: staggered_day_def Let_def max_def)
  moreover have "daily_balances (staggered_day pd a d s) =
      daily_balances s @ [current_balance (staggered_day pd a d s)]"
    by (simp add: staggered_day_def Let_def)
  moreover have "current_balance (lump_sum_day p a d s) =
      (if d = p then max 0 (current_balance s - a) else current_balance s)"
    by (simp add: lump_sum_day_def Let_def max_def)
  moreover have "daily_balances (lump_sum_day p a d s) =
      daily_balances s @ [current_balance (lump_sum_day p a d s)]"
    by (simp add: lump_sum_day_def Let_def)
  ultimately show ?thesis by blast
qed

text \<open>A run in which the second payment of 6 meets a balance of 4.\<close>

theorem balance_never_negative_witness:
  "(0::real) \<le> 10
   \<and> fst (simulate_payments_staggered 10 0.04 2 3 [2] 6) = [10, 4, 4, 4, 0, 0]
   \<and> list_all (\<lambda>x. 0 \<le> x) (fst (simulate_payments_staggered 10 0.04 2 3 [2] 6))
   \<and> fst (simulate_payments_lump_sum 10 0.04 2 3 2 6) = [10, 4, 4, 4, 0, 0]
   \<and> list_all (\<lambda>x. 0 \<le> x) (fst (simulate_payments_lump_sum 10 0.04 2 3 2 6))"
proof -
  have h: "(0::real) \<le> 10" by simp
  have s: "fst (simulate_payments_staggered 10 0.04 2 3 [2] 6) = [10, 4, 4, 4, 0, 0]"
    by (simp add: staggered_series eval_days)
  have l: "fst (simulate_payments_lump_sum 10 0.04 2 3 2 6) = [10, 4, 4, 4, 0, 0]"
    by (simp add: lump_sum_series eval_days)
  show ?thesis
    using h s l balance_never_negative [OF h, where r = "0.04" and m = 2 and dpm = 3
        and pd = "[2]" and a = 6 and p = 2]
    by (simp add: list_all_iff)
qed

text \<open>
  Claim C3. When the series returned by a simulator is not empty, the returned average
  daily balance is the sum of the entries divided by their number, and the returned annual
  interest is that average times the annual interest rate.
\<close>

theorem summary_is_mean:
  "(simulate_payments_staggered ib r m dpm pd a = (series, interest, avg) \<and> series \<noteq> [] \<longrightarrow>
      avg = Some (sum_list series / real (length series))
      \<and> interest = Some (sum_list series / real (length series) * r))
   \<and> (simulate_payments_lump_sum ib r m dpm p a = (series, interest, avg) \<and> series \<noteq> [] \<longrightarrow>
      avg = Some (sum_list series / real (length series))
      \<and> interest = Some (sum_list series / real (length series) * r))"
  by (auto simp: staggered_result lump_sum_result np_mean_def)

text \<open>The same run: the six entries sum to 22.\<close>

theorem summary_is_mean_witness:
  "simulate_payments_staggered 10 0.04 2 3 [2] 6 = ([10, 4, 4, 4, 0, 0], Some (11 / 75), Some (11 / 3))
   \<and> [10, 4, 4, 4, 0, 0] \<noteq> ([] :: real list)
   \<and> Some (11 / 3 :: real) = Some (sum_list [10, 4, 4, 4, 0, 0] / real (length [10, 4, 4, 4, 0, 0 :: real]))
   \<and> Some (11 / 75 :: real) = Some (sum_list [10, 4, 4, 4, 0, 0] / real (length [10, 4, 4, 4, 0, 0 :: real]) * 0.04)
   \<and> simulate_payments_lump_sum 10 0.04 2 3 2 6 = ([10, 4, 4, 4, 0, 0], Some (11 / 75), Some (11 / 3))"
proof -
  have s: "simulate_payments_staggered 10 0.04 2 3 [2] 6
      = ([10, 4, 4, 4, 0, 0], Some (11 / 75), Some (11 / 3))"
    by (simp add: staggered_result eval_days np_mean_def)
  have l: "simulate_payments_lump_sum 10 0.04 2 3 2 6
      = ([10, 4, 4, 4, 0, 0], Some (11 / 75), Some (11 / 3))"
    by (simp add: lump_sum_result eval_days np_mean_def)
  show ?thesis
    using s l summary_is_mean [where ib = 10 and r = "0.04" and m = 2 and dpm = 3
        and pd = "[2]" and a = 6 and p = 2 and series = "[10, 4, 4, 4, 0, 0]"
        and interest = "Some (11 / 75)" and avg = "Some (11 / 3)"]
    by simp
qed

text \<open>
  Claim C4. With at least one month of at least one day, an empty \<open>payment_days\<close>
  (staggered) or a \<open>payment_day\<close> outside \<open>1, \<dots>, days_per_month\<close> (lump sum) gives a
  series whose entries all equal the initial balance.
\<close>

theorem no_payment_constant_series:
  assumes "1 \<le> months" and "1 \<le> days_per_month"
  shows "fst (simulate_payments_staggered ib r months days_per_month [] a)
           = replicate (nat (months * days_per_month)) ib
       \<and> (p < 1 \<or> days_per_month < p \<longrightarrow>
            fst (simulate_payments_lump_sum ib r months days_per_month p a)
              = replicate (nat (months * days_per_month)) ib)"
proof -
  have len: "length (all_days months days_per_month) = nat (months * days_per_month)"
    using assms by (simp add: length_all_days nat_mult_distrib)
  have "run_days (\<lambda>d. d \<in> set []) a ib (all_days months days_per_month)
      = replicate (length (all_days months days_per_month)) ib"
    by (rule run_days_never_due) simp
  then have stag: "fst (simulate_payments_staggered ib r months days_per_month [] a)
      = replicate (nat (months * days_per_month)) ib"
    by (simp only: staggered_series len)
  have lump: "fst (simulate_payments_lump_sum ib r months days_per_month p a)
      = replicate (nat (months * days_per_month)) ib"
    if out: "p < 1 \<or> days_per_month < p"
  proof -
    have "\<forall>d \<in> set (all_days months days_per_month). \<not> d = p"
      using set_all_days [of months days_per_month] out by auto
    then have "run_days (\<lambda>d. d = p) a ib (all_days months days_per_month)
        = replicate (length (all_days months days_per_month)) ib"
      by (rule run_days_never_due)
    then show ?thesis by (simp only: lump_sum_series len)
  qed
  from stag lump show ?thesis by blast
qed

text \<open>Two months of three days, no payment day and payment day 4.\<close>

theorem no_payment_constant_series_witness:
  "(1::int) \<le> 2 \<and> (1::int) \<le> 3 \<and> ((4::int) < 1 \<or> (3::int) < 4)
   \<and> fst (simulate_payments_staggered 10 0.04 2 3 [] 6) = [10, 10, 10, 10, 10, 10]
   \<and> fst (simulate_payments_lump_sum 10 0.04 2 3 4 6) = [10, 10, 10, 10, 10, 10]"
proof -
  have m: "(1::int) \<le> 2" and d: "(1::int) \<le> 3" by simp_all
  have r: "replicate (nat (2 * 3)) (10::real) = [10, 10, 10, 10, 10, 10]"
    by (simp add: eval_nat_numeral)
  show ?thesis
    using no_payment_constant_series [OF m d, where ib = 10 and r = "0.04" and a = 6 and p = 4] r
    by simp
qed

text \<open>
  Claim C5. The lump-sum simulator with payment day \<open>d\<close> returns the same series, the same
  annual interest and the same average as the staggered simulator with the one-element
  schedule \<open>[d]\<close> and the same amount.
\<close>

theorem lump_sum_is_singleton_staggered:
  "simulate_payments_lump_sum ib r m dpm d a = simulate_payments_staggered ib r m dpm [d] a"
  by (simp add: lump_sum_result staggered_result)

text \<open>
  Claim C6, as stated, fails. With the parameters of scenarios A and B the staggered
  average is \<open>85525 / 9\<close> (about 9502.78) and the lump-sum average is \<open>31250 / 3\<close>
  (about 10416.67): the staggered average is not the greater one.
\<close>

theorem scenario_averages_counterexample:
  "snd (snd (simulate_payments_staggered 30000 0.04 12 30 [7, 14, 21, 28] 1000)) = Some (85525 / 9)
   \<and> snd (snd (simulate_payments_lump_sum 30000 0.04 12 30 28 4000)) = Some (31250 / 3)
   \<and> \<not> (31250 / 3 :: real) < 85525 / 9"
  by (simp add: staggered_result lump_sum_result np_mean_def eval_days)

text \<open>
  Claim C6, amended. With the parameters of scenarios A and B both simulators return an
  average daily balance, and the average of the staggered series is strictly smaller than
  the average of the lump-sum series: the staggered debits leave the account earlier.
\<close>

theorem scenario_staggered_average_smaller:
  "\<exists>x y. snd (snd (simulate_payments_staggered 30000 0.04 12 30 [7, 14, 21, 28] 1000)) = Some x
     \<and> snd (snd (simulate_payments_lump_sum 30000 0.04 12 30 28 4000)) = Some y
     \<and> x < y"
proof (intro exI conjI)
  show "snd (snd (simulate_payments_staggered 30000 0.04 12 30 [7, 14, 21, 28] 1000))
      = Some (85525 / 9)"
    by (simp add: staggered_result np_mean_def eval_days)
  show "snd (snd (simulate_payments_lump_sum 30000 0.04 12 30 28 4000)) = Some (31250 / 3)"
    by (simp add: lump_sum_result np_mean_def eval_days)
  show "(85525 / 9 :: real) < 31250 / 3" by simp
qed

text \<open>
  Claim C7. In the staggered run with initial balance 30000, rate 0.04, twelve months of
  thirty days, payment days 7, 14, 21, 28 and amount 1000, the entry recorded on day 28
  of the first month (position 27, counted from 0) is 26000, and the series has 360
  entries.
\<close>

theorem scenario_a_day_28:
  "fst (simulate_payments_staggered 30000 0.04 12 30 [7, 14, 21, 28] 1000) ! 27 = 26000
   \<and> length (fst (simulate_payments_staggered 30000 0.04 12 30 [7, 14, 21, 28] 1000)) = 360"
  by (simp add: staggered_series eval_days)

text \<open>
  Claim C8. With a non-negative initial balance and a non-negative payment amount, if on a
  payment day (entry \<open>i\<close>) the amount exceeds the balance the day starts with, then the
  balance recorded on that day is 0, and so is every later entry \<open>j\<close> of the series.
  This holds for both simulators.
\<close>

theorem overdrawn_balance_stays_zero:
  assumes "0 \<le> ib" and "0 \<le> a" and "i \<le> j"
  shows "(j < length (fst (simulate_payments_staggered ib r m dpm pd a))
          \<and> day_of_month dpm i \<in> set pd
          \<and> balance_before ib (fst (simulate_payments_staggered ib r m dpm pd a)) i < a
          \<longrightarrow> fst (simulate_payments_staggered ib r m dpm pd a) ! i = 0
            \<and> fst (simulate_payments_staggered ib r m dpm pd a) ! j = 0)
       \<and> (j < length (fst (simulate_payments_lump_sum ib r m dpm p a))
          \<and> day_of_month dpm i = p
          \<and> balance_before ib (fst (simulate_payments_lump_sum ib r m dpm p a)) i < a
          \<longrightarrow> fst (simulate_payments_lump_sum ib r m dpm p a) ! i = 0
            \<and> fst (simulate_payments_lump_sum ib r m dpm p a) ! j = 0)"
proof -
  have gen: "run_days due a ib (all_days m dpm) ! i = 0
      \<and> run_days due a ib (all_days m dpm) ! j = 0"
    if j: "j < length (run_days due a ib (all_days m dpm))"
      and day: "due (day_of_month dpm i)"
      and low: "balance_before ib (run_days due a ib (all_days m dpm)) i < a"
    for due
  proof -
    from j have jl: "j < length (all_days m dpm)" by (simp add: length_run_days)
    with assms(3) have il: "i < length (all_days m dpm)" by simp
    then have "all_days m dpm ! i = day_of_month dpm i"
      by (simp add: length_all_days all_days_nth day_of_month_def)
    with day have "due (all_days m dpm ! i)" by simp
    with run_days_nth [OF il, of due a ib] low
    have zero: "run_days due a ib (all_days m dpm) ! i = 0"
      by (simp add: balance_before_def debit_exceeds)
    from run_days_stays_zero [OF assms(2) assms(3) jl zero] zero show ?thesis by simp
  qed
  show ?thesis
    using gen [of "\<lambda>d. d \<in> set pd"] gen [of "\<lambda>d. d = p"]
    by (simp only: staggered_series lump_sum_series) blast
qed

text \<open>Day 2 of the second month: the amount 6 meets the balance 4.\<close>

theorem overdrawn_balance_stays_zero_witness:
  "(0::real) \<le> 10 \<and> (0::real) \<le> 6 \<and> (4::nat) \<le> 5
   \<and> fst (simulate_payments_staggered 10 0.04 2 3 [2] 6) = [10, 4, 4, 4, 0, 0]
   \<and> fst (simulate_payments_lump_sum 10 0.04 2 3 2 6) = [10, 4, 4, 4, 0, 0]
   \<and> 5 < length [10, 4, 4, 4, 0, 0 :: real]
   \<and> day_of_month 3 4 = 2
   \<and> balance_before 10 [10, 4, 4, 4, 0, 0] 4 < 6
   \<and> fst (simulate_payments_staggered 10 0.04 2 3 [2] 6) ! 4 = 0
   \<and> fst (simulate_payments_staggered 10 0.04 2 3 [2] 6) ! 5 = 0
   \<and> fst (simulate_payments_lump_sum 10 0.04 2 3 2 6) ! 4 = 0
   \<and> fst (simulate_payments_lump_sum 10 0.04 2 3 2 6) ! 5 = 0"
proof -
  have ib: "(0::real) \<le> 10" and a: "(0::real) \<le> 6" and ij: "(4::nat) \<le> 5" by simp_all
  have s: "fst (simulate_payments_staggered 10 0.04 2 3 [2] 6) = [10, 4, 4, 4, 0, 0]"
    by (simp add: staggered_series eval_days)
  have l: "fst (simulate_payments_lump_sum 10 0.04 2 3 2 6) = [10, 4, 4, 4, 0, 0]"
    by (simp add: lump_sum_series eval_days)
  have d: "day_of_month 3 4 = 2" by (simp add: day_of_month_def)
  have b: "balance_before 10 [10, 4, 4, 4, 0, 0] 4 < 6" by (simp add: balance_before_def)
  show ?thesis
    using overdrawn_balance_stays_zero [OF ib a ij, where r = "0.04" and m = 2 and dpm = 3
        and pd = "[2]" and p = 2] s l d b
    by simp
qed

text \<open>
  Claim C10. The staggered simulator tests membership of the day in \<open>payment_days\<close>, so
  the result for a schedule with repeated days is the result for the schedule with the
  repetitions removed; the loop body is the same for both, and a day listed twice is
  debited once.
\<close>

theorem duplicate_payment_days:
  "simulate_payments_staggered ib r m dpm pd a
     = simulate_payments_staggered ib r m dpm (remdups pd) a
   \<and> staggered_day pd a d s = staggered_day (remdups pd) a d s
   \<and> current_balance (staggered_day (d # d # pd) a d s) = max 0 (current_balance s - a)"
  by (simp add: staggered_result staggered_day_def Let_def max_def)

end
